theory Spec2Isabelle
  imports Main
begin

section \<open>Memory model\<close>

text \<open>
  The repository holds two class templates, \<open>UniquePointer<T>\<close> (uniquePointer.cpp) and
  \<open>smartPointer<T>\<close>. Each has a single data member \<open>T* ptr\<close>. Their member functions
  read and write that member, evaluate \<open>delete ptr\<close> and print a line on \<open>cout\<close>.

  A resource of type \<open>T\<close> is identified by its address, and a raw pointer \<open>T*\<close> is either
  \<open>nullptr\<close> (\<open>None\<close>) or the address of a resource. A wrapper instance is identified by
  its own address (\<open>this\<close>), which is what \<open>this != &other\<close> compares.
\<close>

type_synonym addr = nat
type_synonym oid = nat
type_synonym rawptr = "addr option"

text \<open>
  What a run does to memory, in the order in which it does it: a delete-expression on a
  non-null pointer, and a write to the \<open>ptr\<close> member of a wrapper (by a member
  initialiser or by an assignment).
\<close>

datatype event = Deleted addr | Stored oid rawptr

text \<open>
  The state of a run: the \<open>ptr\<close> member stored at every wrapper address, the wrappers
  whose lifetime has begun and not ended, the resources on which a delete-expression has
  run (oldest first; this is the destruction counter of a resource type that counts its
  destructor calls), the lines written to \<open>cout\<close> (without the trailing newline), and
  the memory events so far (oldest first).
\<close>

record world =
  ptr :: "oid \<Rightarrow> rawptr"
  live :: "oid set"
  destroyed :: "addr list"
  out :: "string list"
  trace :: "event list"

definition init :: world where
  "init = \<lparr>ptr = (\<lambda>_. None), live = {}, destroyed = [], out = [], trace = []\<rparr>"

definition cout :: "string \<Rightarrow> world \<Rightarrow> world" where
  "cout msg s = s\<lparr>out := out s @ [msg]\<rparr>"

text \<open>A write of \<open>p\<close> to the member \<open>ptr\<close> of the wrapper at \<open>this\<close>.\<close>

definition store :: "oid \<Rightarrow> rawptr \<Rightarrow> world \<Rightarrow> world" where
  "store this p s = s\<lparr>ptr := (ptr s)(this := p), trace := trace s @ [Stored this p]\<rparr>"

text \<open>
  \<open>delete p\<close>: nothing happens for a null pointer; otherwise the resource's destructor
  runs and its storage is released. A resource that occurs twice in \<open>destroyed\<close> has been
  freed twice. This is the whole effect for a resource type that holds no wrappers, such
  as the \<open>MyClass\<close> of both source files; resource types that hold UniquePointer members
  are treated further down.
\<close>

definition delete_expr :: "rawptr \<Rightarrow> world \<Rightarrow> world" where
  "delete_expr p s =
     (case p of None \<Rightarrow> s
      | Some a \<Rightarrow> s\<lparr>destroyed := destroyed s @ [a], trace := trace s @ [Deleted a]\<rparr>)"

section \<open>UniquePointer (uniquePointer.cpp)\<close>

text \<open>\<open>explicit UniquePointer(T* p = nullptr) : ptr(p)\<close>\<close>

definition UniquePointer_ctor :: "oid \<Rightarrow> rawptr \<Rightarrow> world \<Rightarrow> world" where
  "UniquePointer_ctor this p s =
     (let s1 = store this p s;
          s2 = cout ''UniquePointer instance created, Contructor is called!!'' s1
      in s2\<lparr>live := insert this (live s2)\<rparr>)"

text \<open>\<open>~UniquePointer()\<close>: prints, then \<open>delete ptr\<close>; the instance's lifetime ends.\<close>

definition UniquePointer_dtor :: "oid \<Rightarrow> world \<Rightarrow> world" where
  "UniquePointer_dtor this s =
     (let s1 = cout ''UniquePointer deleted, Destructor is called!!'' s;
          s2 = delete_expr (ptr s1 this) s1
      in s2\<lparr>live := live s2 - {this}\<rparr>)"

text \<open>\<open>UniquePointer(UniquePointer&& other) noexcept : ptr(other.ptr)\<close>\<close>

definition UniquePointer_move_ctor :: "oid \<Rightarrow> oid \<Rightarrow> world \<Rightarrow> world" where
  "UniquePointer_move_ctor this other s =
     (let s1 = store this (ptr s other) s;
          s2 = cout ''Move constructor called'' s1;
          s3 = store other None s2
      in s3\<lparr>live := insert this (live s3)\<rparr>)"

text \<open>\<open>UniquePointer& operator=(UniquePointer&& other) noexcept\<close>\<close>

definition UniquePointer_move_assign :: "oid \<Rightarrow> oid \<Rightarrow> world \<Rightarrow> world" where
  "UniquePointer_move_assign this other s =
     (let s3 = (if this \<noteq> other then
                  (let s1 = delete_expr (ptr s this) s;
                       s2 = store this (ptr s1 other) s1
                   in store other None s2)
                else s)
      in cout ''Move assignment operator called'' s3)"

text \<open>
  \<open>T& operator*() const\<close> returns \<open>*ptr\<close>. A reference is identified by the address of
  its referent. Applying the built-in \<open>*\<close> to a null pointer has no defined result in
  C++; the function has no branch for that case, so the model gives it the separate
  outcome \<open>Undefined\<close>, which is not a value the caller can test for.
\<close>

datatype deref = Ref addr | Undefined

definition UniquePointer_deref :: "oid \<Rightarrow> world \<Rightarrow> deref \<times> world" where
  "UniquePointer_deref this s =
     (let s1 = cout ''overloading dereference operator'' s
      in (case ptr s1 this of Some a \<Rightarrow> Ref a | None \<Rightarrow> Undefined, s1))"

text \<open>\<open>T* operator->() const\<close> returns \<open>ptr\<close>.\<close>

definition UniquePointer_arrow :: "oid \<Rightarrow> world \<Rightarrow> rawptr \<times> world" where
  "UniquePointer_arrow this s =
     (let s1 = cout ''overloading arrow oprator'' s
      in (ptr s1 this, s1))"

text \<open>\<open>T* release()\<close>\<close>

definition release :: "oid \<Rightarrow> world \<Rightarrow> rawptr \<times> world" where
  "release this s =
     (let s1 = cout ''utility function to release ownership'' s;
          oldPtr = ptr s1 this;
          s2 = store this None s1
      in (oldPtr, s2))"

text \<open>\<open>void reset(T* p = nullptr)\<close>; the call \<open>reset()\<close> is \<open>reset this None\<close>.\<close>

definition reset :: "oid \<Rightarrow> rawptr \<Rightarrow> world \<Rightarrow> world" where
  "reset this p s =
     (let s1 = cout ''utility function to reset the pointer with a new one'' s;
          s2 = delete_expr (ptr s1 this) s1
      in store this p s2)"

section \<open>smartPointer\<close>

text \<open>\<open>explicit smartPointer(T* p=nullptr):ptr(p)\<close>\<close>

definition smartPointer_ctor :: "oid \<Rightarrow> rawptr \<Rightarrow> world \<Rightarrow> world" where
  "smartPointer_ctor this p s =
     (let s1 = store this p s;
          s2 = cout ''smartPointer instance created, Contructor is called!!'' s1
      in s2\<lparr>live := insert this (live s2)\<rparr>)"

text \<open>\<open>~smartPointer()\<close>: prints, then \<open>delete ptr\<close>.\<close>

definition smartPointer_dtor :: "oid \<Rightarrow> world \<Rightarrow> world" where
  "smartPointer_dtor this s =
     (let s1 = cout ''smartPointer deleted, Destructor is called!!'' s;
          s2 = delete_expr (ptr s1 this) s1
      in s2\<lparr>live := live s2 - {this}\<rparr>)"

text \<open>
  The class declares no copy constructor and no copy assignment, and neither is deleted,
  so C++ defines the copy constructor implicitly: it copies the member \<open>ptr\<close> and runs no
  code of the class (nothing is printed).
\<close>

definition smartPointer_copy_ctor :: "oid \<Rightarrow> oid \<Rightarrow> world \<Rightarrow> world" where
  "smartPointer_copy_ctor this other s =
     (let s1 = store this (ptr s other) s
      in s1\<lparr>live := insert this (live s1)\<rparr>)"

definition smartPointer_deref :: "oid \<Rightarrow> world \<Rightarrow> deref \<times> world" where
  "smartPointer_deref this s =
     (let s1 = cout ''overloading dereference operator'' s
      in (case ptr s1 this of Some a \<Rightarrow> Ref a | None \<Rightarrow> Undefined, s1))"

definition smartPointer_arrow :: "oid \<Rightarrow> world \<Rightarrow> rawptr \<times> world" where
  "smartPointer_arrow this s =
     (let s1 = cout ''overloading arrow oprator'' s
      in (ptr s1 this, s1))"

section \<open>Sequences of UniquePointer operations\<close>








text \<open>
  Exclusive ownership: the handle of every live instance is empty or differs from the
  handle of every other live instance.
\<close>

definition exclusive :: "world \<Rightarrow> bool" where
  "exclusive s = (\<forall>i \<in> live s. \<forall>j \<in> live s. i \<noteq> j \<longrightarrow> ptr s i = None \<or> ptr s i \<noteq> ptr s j)"

section \<open>Resources that hold UniquePointer members\<close>

text \<open>
  The template accepts any resource type \<open>T\<close>, and \<open>delete ptr\<close> runs \<open>~T\<close>: the body of
  the destructor, then the destructors of the data members of the resource in reverse
  order of declaration, then the storage is released. With
  \<^verbatim>\<open>struct Node { UniquePointer<Node> next; };\<close>
  the destruction of a \<open>Node\<close> destroys its member \<open>next\<close>, and \<open>~UniquePointer\<close> of that
  member deletes the following \<open>Node\<close>.

  A layout gives, for the resource at an address, the wrapper instances that are its
  data members, in declaration order. The types do not bound how deep resources nest (a
  \<open>Node\<close> can be made to own itself, and its destruction then never ends), so the
  recursion carries fuel: one unit for each destructor \<open>~T\<close> that is running.
\<close>

type_synonym layout = "addr \<Rightarrow> oid list"

text \<open>
  \<open>Lifetime_ended\<close>: the code reads or writes the member of a wrapper whose lifetime has
  ended. C++ defines no behaviour for that, and the run has no state afterwards.
\<close>

datatype fault = Out_of_fuel | Lifetime_ended

text \<open>\<open>~UniquePointer()\<close>, with the delete-expression it evaluates as a parameter.\<close>

definition UniquePointer_dtor_with ::
  "(rawptr \<Rightarrow> world \<Rightarrow> fault + world) \<Rightarrow> oid \<Rightarrow> world \<Rightarrow> fault + world" where
  "UniquePointer_dtor_with del this s =
     (let s1 = cout ''UniquePointer deleted, Destructor is called!!'' s
      in case del (ptr s1 this) s1 of
           Inl e \<Rightarrow> Inl e
         | Inr s2 \<Rightarrow> Inr (s2\<lparr>live := live s2 - {this}\<rparr>))"

fun destroy_members ::
  "(rawptr \<Rightarrow> world \<Rightarrow> fault + world) \<Rightarrow> oid list \<Rightarrow> world \<Rightarrow> fault + world" where
  "destroy_members del [] s = Inr s"
| "destroy_members del (m # ms) s =
     (case UniquePointer_dtor_with del m s of
        Inl e \<Rightarrow> Inl e
      | Inr s1 \<Rightarrow> destroy_members del ms s1)"

text \<open>
  \<open>delete p\<close> for a resource type with the given layout: nothing for a null pointer;
  otherwise the resource is destroyed (logged as in \<open>delete_expr\<close>) and its member
  wrappers are destroyed, last declared first.
\<close>

primrec delete_T :: "nat \<Rightarrow> layout \<Rightarrow> rawptr \<Rightarrow> world \<Rightarrow> fault + world" where
  "delete_T 0 M p s = (case p of None \<Rightarrow> Inr s | Some a \<Rightarrow> Inl Out_of_fuel)"
| "delete_T (Suc n) M p s =
     (case p of
        None \<Rightarrow> Inr s
      | Some a \<Rightarrow> destroy_members (delete_T n M) (rev (M a)) (delete_expr (Some a) s))"

text \<open>
  \<open>UniquePointer& operator=(UniquePointer&& other) noexcept\<close> for such a resource type.
  The statements after \<open>delete ptr\<close> read \<open>other.ptr\<close> and write \<open>ptr\<close> and \<open>other.ptr\<close>;
  they are defined only if both instances are still alive when the delete-expression
  has returned.
\<close>

definition UniquePointer_move_assign_T ::
  "nat \<Rightarrow> layout \<Rightarrow> oid \<Rightarrow> oid \<Rightarrow> world \<Rightarrow> fault + world" where
  "UniquePointer_move_assign_T n M this other s =
     (case (if this \<noteq> other then
              (case delete_T n M (ptr s this) s of
                 Inl e \<Rightarrow> Inl e
               | Inr s1 \<Rightarrow>
                   if this \<in> live s1 \<and> other \<in> live s1 then
                     (let s2 = store this (ptr s1 other) s1
                      in Inr (store other None s2))
                   else Inl Lifetime_ended)
            else Inr s) of
        Inl e \<Rightarrow> Inl e
      | Inr s3 \<Rightarrow> Inr (cout ''Move assignment operator called'' s3))"

text \<open>
  A list of two nodes. The resource at address 10 has the member wrapper 1 and the
  resource at 20 has the member wrapper 2; wrapper 0 is the variable \<open>head\<close>:
  \<^verbatim>\<open>Node* y = new Node; Node* x = new Node; x->next.reset(y); UniquePointer<Node> head(x);\<close>
\<close>

definition Node_layout :: layout where
  "Node_layout a = (if a = 10 then [1] else if a = 20 then [2] else [])"

definition two_nodes :: world where
  "two_nodes =
     UniquePointer_ctor 0 (Some 10)
       (reset 1 (Some 20) (UniquePointer_ctor 1 None (UniquePointer_ctor 2 None init)))"

section \<open>Basic facts about the primitives\<close>

lemma cout_fields [simp]:
  "ptr (cout m s) = ptr s" "live (cout m s) = live s" "destroyed (cout m s) = destroyed s"
  "out (cout m s) = out s @ [m]" "trace (cout m s) = trace s"
  by (simp_all add: cout_def)

lemma store_fields [simp]:
  "ptr (store t p s) = (ptr s)(t := p)" "live (store t p s) = live s"
  "destroyed (store t p s) = destroyed s" "out (store t p s) = out s"
  "trace (store t p s) = trace s @ [Stored t p]"
  by (simp_all add: store_def)

lemma delete_expr_fields [simp]:
  "ptr (delete_expr p s) = ptr s" "live (delete_expr p s) = live s"
  "out (delete_expr p s) = out s"
  by (simp_all add: delete_expr_def split: option.split)

lemma delete_expr_destroyed [simp]:
  "destroyed (delete_expr None s) = destroyed s"
  "destroyed (delete_expr (Some a) s) = destroyed s @ [a]"
  by (simp_all add: delete_expr_def)

lemma delete_expr_trace [simp]:
  "trace (delete_expr None s) = trace s"
  "trace (delete_expr (Some a) s) = trace s @ [Deleted a]"
  by (simp_all add: delete_expr_def)

section \<open>Construction followed by destruction\<close>

text \<open>
  Claim C1. Constructing a UniquePointer over a resource \<open>r\<close> and then destroying it
  destroys \<open>r\<close> exactly once: the log of destroyed resources grows by exactly \<open>r\<close>, and
  from the initial state \<open>r\<close> is counted once. The destructor destroys the resource the
  handle refers to when the handle is non-empty, and destroys nothing for an empty owner
  (also for one constructed empty).
\<close>

theorem construct_destroy_once:
  "destroyed (UniquePointer_dtor this (UniquePointer_ctor this (Some r) s)) = destroyed s @ [r]
   \<and> count_list (destroyed (UniquePointer_dtor this (UniquePointer_ctor this (Some r) init))) r = 1
   \<and> destroyed (UniquePointer_dtor this s)
       = (case ptr s this of None \<Rightarrow> destroyed s | Some a \<Rightarrow> destroyed s @ [a])
   \<and> destroyed (UniquePointer_dtor this (UniquePointer_ctor this None s)) = destroyed s"
  by (simp add: UniquePointer_dtor_def UniquePointer_ctor_def init_def Let_def
      split: option.split)

section \<open>Release\<close>

text \<open>
  Claim C5. \<open>release()\<close> returns the owner's previous handle, destroys nothing and leaves
  the owner empty; destroying the owner afterwards destroys nothing either.
\<close>

theorem release_hands_over:
  "fst (release this s) = ptr s this
   \<and> destroyed (snd (release this s)) = destroyed s
   \<and> ptr (snd (release this s)) this = None
   \<and> destroyed (UniquePointer_dtor this (snd (release this s))) = destroyed s"
  by (simp add: release_def UniquePointer_dtor_def Let_def)

section \<open>Release followed by reset\<close>

text \<open>
  Claim C10. \<open>w.reset(w.release())\<close>: the argument is evaluated first, so \<open>release\<close> runs
  before the body of \<open>reset\<close>. For an owner in any state the round trip destroys
  nothing and leaves every handle, the owner's included, as it was.
\<close>

theorem release_reset_roundtrip:
  "(case release this s of (p, s1) \<Rightarrow>
      destroyed (reset this p s1) = destroyed s
      \<and> ptr (reset this p s1) this = ptr s this
      \<and> ptr (reset this p s1) = ptr s
      \<and> live (reset this p s1) = live s)"
  by (simp add: release_def reset_def Let_def)

section \<open>Transfer by move assignment\<close>

subsection \<open>Resources that hold no wrappers\<close>

text \<open>
  For a resource type without UniquePointer members (such as \<open>MyClass\<close>), move
  assignment between two distinct instances, the receiver owning \<open>x\<close> and the source
  owning \<open>y\<close>: \<open>x\<close> is destroyed exactly once, during the assignment, the receiver's
  handle becomes \<open>y\<close> and the source becomes empty. Move assignment of an instance to
  itself destroys nothing and changes no handle: the owner keeps its resource.
\<close>

theorem move_assign_transfers:
  "(this \<noteq> other \<and> ptr s this = Some x \<and> ptr s other = Some y \<longrightarrow>
      destroyed (UniquePointer_move_assign this other s) = destroyed s @ [x]
      \<and> ptr (UniquePointer_move_assign this other s) this = Some y
      \<and> ptr (UniquePointer_move_assign this other s) other = None)
   \<and> destroyed (UniquePointer_move_assign this this s) = destroyed s
   \<and> ptr (UniquePointer_move_assign this this s) = ptr s
   \<and> live (UniquePointer_move_assign this this s) = live s"
  by (simp add: UniquePointer_move_assign_def Let_def)

theorem move_assign_transfers_witness:
  "ptr (UniquePointer_ctor 1 (Some 20) (UniquePointer_ctor 0 (Some 10) init)) 0 = Some 10
   \<and> ptr (UniquePointer_ctor 1 (Some 20) (UniquePointer_ctor 0 (Some 10) init)) 1 = Some 20
   \<and> destroyed (UniquePointer_move_assign 0 1
        (UniquePointer_ctor 1 (Some 20) (UniquePointer_ctor 0 (Some 10) init))) = [10]
   \<and> ptr (UniquePointer_move_assign 0 1
        (UniquePointer_ctor 1 (Some 20) (UniquePointer_ctor 0 (Some 10) init))) 0 = Some 20
   \<and> ptr (UniquePointer_move_assign 0 1
        (UniquePointer_ctor 1 (Some 20) (UniquePointer_ctor 0 (Some 10) init))) 1 = None
   \<and> destroyed (UniquePointer_move_assign 0 0
        (UniquePointer_ctor 1 (Some 20) (UniquePointer_ctor 0 (Some 10) init))) = []
   \<and> ptr (UniquePointer_move_assign 0 0
        (UniquePointer_ctor 1 (Some 20) (UniquePointer_ctor 0 (Some 10) init))) 0 = Some 10"
proof -
  let ?w = "UniquePointer_ctor 1 (Some 20) (UniquePointer_ctor 0 (Some 10) init)"
  have h: "(0::nat) \<noteq> 1 \<and> ptr ?w 0 = Some 10 \<and> ptr ?w 1 = Some 20"
    and d: "destroyed ?w = []"
    by (simp_all add: UniquePointer_ctor_def init_def Let_def)
  from move_assign_transfers [of 0 1 ?w 10 20] h d show ?thesis
    by simp
qed

subsection \<open>A source stored inside the receiver's resource\<close>

lemma delete_T_null [simp]: "delete_T n M None s = Inr s"
  by (cases n) simp_all

text \<open>With no member wrappers anywhere, the two models of \<open>delete\<close> and of move
  assignment agree.\<close>

lemma delete_T_no_members: "delete_T (Suc n) (\<lambda>_. []) p s = Inr (delete_expr p s)"
  by (simp add: delete_expr_def split: option.split)

lemma move_assign_T_no_members:
  "this \<in> live s \<Longrightarrow> other \<in> live s \<Longrightarrow>
   UniquePointer_move_assign_T (Suc n) (\<lambda>_. []) this other s
     = Inr (UniquePointer_move_assign this other s)"
  by (simp add: UniquePointer_move_assign_T_def UniquePointer_move_assign_def Let_def
      delete_expr_def split: option.split)

lemma two_nodes_fields:
  "ptr two_nodes 0 = Some 10" "ptr two_nodes 1 = Some 20" "ptr two_nodes (Suc 0) = Some 20"
  "ptr two_nodes 2 = None" "live two_nodes = {0, 1, 2}" "destroyed two_nodes = []"
  by (auto simp add: two_nodes_def UniquePointer_ctor_def reset_def init_def Let_def)

lemma delete_first_node:
  "\<exists>s1. delete_T (Suc (Suc n)) Node_layout (Some 10) two_nodes = Inr s1
        \<and> destroyed s1 = [10, 20] \<and> live s1 = {0}
        \<and> trace s1 = trace two_nodes @ [Deleted 10, Deleted 20]"
  by (auto simp add: Node_layout_def UniquePointer_dtor_with_def Let_def two_nodes_fields)

text \<open>
  Claim C3, at \<open>head = std::move(head->next)\<close> on a list of two nodes. The receiver
  \<open>head\<close> (wrapper 0) owns the node at 10, the source \<open>head->next\<close> (wrapper 1) is a
  distinct, live instance and owns the node at 20. The claim promises that 10 is
  destroyed, that \<open>head\<close> then holds 20 and that the source is empty. In the code
  \<open>delete ptr\<close> comes first: it destroys the node at 10 and with it the source, whose
  destructor deletes the node at 20. When the delete-expression returns, only \<open>head\<close> is
  alive and both nodes are destroyed; \<open>ptr = other.ptr\<close> then reads a wrapper whose
  lifetime has ended. With any amount of fuel the assignment ends in a fault, never in
  the state the claim describes.
\<close>

theorem move_assign_source_inside_resource:
  "ptr two_nodes 0 = Some 10 \<and> ptr two_nodes 1 = Some 20
   \<and> 0 \<in> live two_nodes \<and> 1 \<in> live two_nodes
   \<and> (case delete_T (Suc (Suc n)) Node_layout (ptr two_nodes 0) two_nodes of
        Inl e \<Rightarrow> None
      | Inr s1 \<Rightarrow> Some (destroyed s1, live s1)) = Some ([10, 20], {0})
   \<and> UniquePointer_move_assign_T (Suc (Suc n)) Node_layout 0 1 two_nodes = Inl Lifetime_ended
   \<and> UniquePointer_move_assign_T (Suc 0) Node_layout 0 1 two_nodes = Inl Out_of_fuel
   \<and> UniquePointer_move_assign_T 0 Node_layout 0 1 two_nodes = Inl Out_of_fuel"
proof -
  have zero: "delete_T 0 Node_layout (Some 10) two_nodes = Inl Out_of_fuel"
    by simp
  have one: "delete_T (Suc 0) Node_layout (Some 10) two_nodes = Inl Out_of_fuel"
    by (simp add: Node_layout_def UniquePointer_dtor_with_def Let_def two_nodes_fields)
  obtain s1 where two: "delete_T (Suc (Suc n)) Node_layout (Some 10) two_nodes = Inr s1"
    and s1: "destroyed s1 = [10, 20]" "live s1 = {0}"
    using delete_first_node by blast
  show ?thesis
    by (simp add: UniquePointer_move_assign_T_def two_nodes_fields zero one two s1
        del: delete_T.simps)
qed

section \<open>Transfer by move construction\<close>

text \<open>
  Claim C4. Move construction of a new instance from a source: the new instance gets
  exactly the source's previous handle, the source is left empty, and nothing is
  destroyed. This holds whatever the source held; from an empty source the new instance
  is empty too. Destroying both afterwards destroys the transferred resource once.
\<close>

theorem move_ctor_transfers:
  "this \<noteq> other \<Longrightarrow>
     ptr (UniquePointer_move_ctor this other s) this = ptr s other
     \<and> ptr (UniquePointer_move_ctor this other s) other = None
     \<and> destroyed (UniquePointer_move_ctor this other s) = destroyed s
     \<and> (ptr s other = None \<longrightarrow> ptr (UniquePointer_move_ctor this other s) this = None)
     \<and> destroyed (UniquePointer_dtor other (UniquePointer_dtor this
          (UniquePointer_move_ctor this other s)))
         = (case ptr s other of None \<Rightarrow> destroyed s | Some r \<Rightarrow> destroyed s @ [r])"
  by (simp add: UniquePointer_move_ctor_def UniquePointer_dtor_def Let_def
      split: option.split)

theorem move_ctor_transfers_witness:
  "ptr (UniquePointer_move_ctor 1 0 (UniquePointer_ctor 0 (Some 10) init)) 1 = Some 10
   \<and> ptr (UniquePointer_move_ctor 1 0 (UniquePointer_ctor 0 (Some 10) init)) 0 = None
   \<and> destroyed (UniquePointer_move_ctor 1 0 (UniquePointer_ctor 0 (Some 10) init)) = []
   \<and> destroyed (UniquePointer_dtor 0 (UniquePointer_dtor 1
        (UniquePointer_move_ctor 1 0 (UniquePointer_ctor 0 (Some 10) init)))) = [10]"
proof -
  let ?w = "UniquePointer_ctor 0 (Some 10) init"
  have h: "(1::nat) \<noteq> 0" by simp
  have w: "ptr ?w 0 = Some 10" "destroyed ?w = []"
    by (simp_all add: UniquePointer_ctor_def init_def Let_def)
  from move_ctor_transfers [OF h, of ?w] w show ?thesis
    by simp
qed

section \<open>Reset\<close>



section \<open>Unchecked access\<close>

text \<open>
  Claim C9. The dereference and member-access operators make no check. On a non-empty
  owner dereference yields a reference to the managed resource and member access yields
  the raw handle to the same resource. Member access returns the stored handle whatever
  it is, so on an empty owner it hands the null pointer to the built-in \<open>->\<close> of the
  caller; on an empty owner dereference has the undefined outcome. No error is reported
  in either case. Neither operator changes a handle or destroys anything: the state
  after the call is the state before it with one more line of output.
\<close>

theorem access_unchecked:
  "(ptr s this = Some a \<longrightarrow>
      fst (UniquePointer_deref this s) = Ref a \<and> fst (UniquePointer_arrow this s) = Some a)
   \<and> (ptr s this = None \<longrightarrow>
      fst (UniquePointer_deref this s) = Undefined \<and> fst (UniquePointer_arrow this s) = None)
   \<and> fst (UniquePointer_arrow this s) = ptr s this
   \<and> snd (UniquePointer_deref this s) = cout ''overloading dereference operator'' s
   \<and> snd (UniquePointer_arrow this s) = cout ''overloading arrow oprator'' s
   \<and> destroyed (snd (UniquePointer_deref this s)) = destroyed s
   \<and> destroyed (snd (UniquePointer_arrow this s)) = destroyed s"
  by (simp add: UniquePointer_deref_def UniquePointer_arrow_def Let_def)

theorem access_unchecked_witness:
  "ptr (UniquePointer_ctor 0 (Some 10) init) 0 = Some 10
   \<and> fst (UniquePointer_deref 0 (UniquePointer_ctor 0 (Some 10) init)) = Ref 10
   \<and> fst (UniquePointer_arrow 0 (UniquePointer_ctor 0 (Some 10) init)) = Some 10
   \<and> ptr (UniquePointer_ctor 0 None init) 0 = None
   \<and> fst (UniquePointer_deref 0 (UniquePointer_ctor 0 None init)) = Undefined
   \<and> fst (UniquePointer_arrow 0 (UniquePointer_ctor 0 None init)) = None"
proof -
  let ?w = "UniquePointer_ctor 0 (Some 10) init"
  let ?e = "UniquePointer_ctor 0 None init"
  have w: "ptr ?w 0 = Some 10" and e: "ptr ?e 0 = None"
    by (simp_all add: UniquePointer_ctor_def init_def Let_def)
  from access_unchecked [of ?w 0 10] access_unchecked [of ?e 0 10] w e
  show ?thesis by simp
qed

section \<open>The double free of smartPointer\<close>

text \<open>
  Claim C8. smartPointer can be copied, the copy holds the same handle, and its
  destructor deletes whatever non-null handle it holds. So when an instance is
  constructed over \<open>r\<close>, a second instance is made as a copy of it and both are destroyed,
  \<open>r\<close> is destroyed twice.
\<close>

theorem smartPointer_double_free:
  "this \<noteq> other \<Longrightarrow>
     ptr (smartPointer_copy_ctor this other (smartPointer_ctor other (Some r) s)) this = Some r
     \<and> ptr (smartPointer_copy_ctor this other (smartPointer_ctor other (Some r) s)) other = Some r
     \<and> destroyed (smartPointer_dtor other (smartPointer_dtor this
          (smartPointer_copy_ctor this other (smartPointer_ctor other (Some r) s))))
         = destroyed s @ [r, r]
     \<and> count_list (destroyed (smartPointer_dtor other (smartPointer_dtor this
          (smartPointer_copy_ctor this other (smartPointer_ctor other (Some r) init))))) r = 2"
  by (simp add: smartPointer_copy_ctor_def smartPointer_ctor_def smartPointer_dtor_def
      init_def Let_def)

theorem smartPointer_double_free_witness:
  "destroyed (smartPointer_dtor 0 (smartPointer_dtor 1
      (smartPointer_copy_ctor 1 0 (smartPointer_ctor 0 (Some 10) init)))) = [10, 10]
   \<and> count_list (destroyed (smartPointer_dtor 0 (smartPointer_dtor 1
      (smartPointer_copy_ctor 1 0 (smartPointer_ctor 0 (Some 10) init))))) 10 = 2"
proof -
  have h: "(1::nat) \<noteq> 0" by simp
  have e: "destroyed init = []" by (simp add: init_def)
  from smartPointer_double_free [OF h, of 10 init] e show ?thesis
    by simp
qed

section \<open>The exclusive-ownership invariant\<close>

subsection \<open>Each operation preserves it\<close>

lemma exclusive_init: "exclusive init"
  by (simp add: exclusive_def init_def)








subsection \<open>Runs\<close>







end
